theory Spec2Isabelle
  imports Main
begin

section \<open>JavaScript values carried by a listing row\<close>

text \<open>
  The page component \<^verbatim>\<open>src/pages/HomePage.tsx\<close> types every row as \<^verbatim>\<open>any\<close>.
  A row arrives as a parsed JSON object whose columns hold JSON scalars or arrays of them;
  a column that is absent reads as \<^verbatim>\<open>undefined\<close>. Numbers are the finite numbers
  of JSON (here integers: ids, prices, years, mileages), so there is no NaN.
  A string is a list of characters.
\<close>

datatype jsval =
    JUndefined
  | JNull
  | JBool bool
  | JNum int
  | JStr string
  | JArr "jsval list"

text \<open>An object is its list of own properties in insertion order.\<close>

type_synonym jsobj = "(string \<times> jsval) list"

definition read_prop :: "jsobj \<Rightarrow> string \<Rightarrow> jsval" where
  \<comment> \<open>\<^verbatim>\<open>o.k\<close> on an object: the value, or undefined when the key is absent\<close>
  "read_prop obj k = (case map_of obj k of None \<Rightarrow> JUndefined | Some v \<Rightarrow> v)"

fun truthy :: "jsval \<Rightarrow> bool" where
  "truthy JUndefined = False"
| "truthy JNull = False"
| "truthy (JBool b) = b"
| "truthy (JNum n) = (n \<noteq> 0)"
| "truthy (JStr s) = (s \<noteq> [])"
| "truthy (JArr xs) = True"

definition js_or :: "jsval \<Rightarrow> jsval \<Rightarrow> jsval" where
  \<comment> \<open>\<^verbatim>\<open>a || b\<close>\<close>
  "js_or a b = (if truthy a then a else b)"

fun strict_eq :: "jsval \<Rightarrow> jsval \<Rightarrow> bool" where
  \<comment> \<open>\<^verbatim>\<open>a === b\<close>. Two arrays are equal only when they are the same allocation;
      the values compared by the page come from two separate responses, so never are.\<close>
  "strict_eq JUndefined JUndefined = True"
| "strict_eq JNull JNull = True"
| "strict_eq (JBool a) (JBool b) = (a = b)"
| "strict_eq (JNum a) (JNum b) = (a = b)"
| "strict_eq (JStr a) (JStr b) = (a = b)"
| "strict_eq _ _ = False"

fun primitive :: "jsval \<Rightarrow> bool" where
  "primitive (JArr xs) = False"
| "primitive _ = True"

subsection \<open>Failures\<close>

text \<open>
  Whatever the page inspects of a failure (the error member of a response, or a caught
  exception) is its \<^verbatim>\<open>message\<close>, read through \<^verbatim>\<open>?.\<close>: a string, or absent.
\<close>

record failure =
  message :: "string option"

definition TypeError :: "string \<Rightarrow> string \<Rightarrow> failure" where
  \<comment> \<open>reading a member of undefined or null throws; the text is V8's\<close>
  "TypeError base k =
     \<lparr>message = Some (''Cannot read properties of '' @ base @ '' (reading '' @
        [CHR 0x27] @ k @ [CHR 0x27] @ '')'')\<rparr>"

fun member_length :: "jsval \<Rightarrow> failure + int option" where
  \<comment> \<open>\<^verbatim>\<open>v.length\<close>: a number on strings and arrays, undefined (\<open>None\<close>) on booleans
      and numbers, a TypeError on undefined and null\<close>
  "member_length JUndefined = Inl (TypeError ''undefined'' ''length'')"
| "member_length JNull = Inl (TypeError ''null'' ''length'')"
| "member_length (JBool b) = Inr None"
| "member_length (JNum n) = Inr None"
| "member_length (JStr s) = Inr (Some (int (length s)))"
| "member_length (JArr xs) = Inr (Some (int (length xs)))"

fun gt_zero :: "int option \<Rightarrow> bool" where
  \<comment> \<open>\<^verbatim>\<open>n > 0\<close>; undefined converts to NaN, which compares false\<close>
  "gt_zero None = False"
| "gt_zero (Some n) = (n > 0)"

fun member_first :: "jsval \<Rightarrow> failure + jsval" where
  \<comment> \<open>\<^verbatim>\<open>v[0]\<close>: undefined when there is no such element\<close>
  "member_first JUndefined = Inl (TypeError ''undefined'' ''0'')"
| "member_first JNull = Inl (TypeError ''null'' ''0'')"
| "member_first (JBool b) = Inr JUndefined"
| "member_first (JNum n) = Inr JUndefined"
| "member_first (JStr s) = Inr (case s of [] \<Rightarrow> JUndefined | c # _ \<Rightarrow> JStr [c])"
| "member_first (JArr xs) = Inr (case xs of [] \<Rightarrow> JUndefined | x # _ \<Rightarrow> x)"

section \<open>formatListing\<close>

definition fallbackImage :: string where
  "fallbackImage = ''/category-images/fallback.jpg''"

definition cover_image :: "jsval \<Rightarrow> failure + jsval" where
  \<comment> \<open>\<^verbatim>\<open>images && images.length > 0 ? images[0] : fallbackImage\<close>\<close>
  "cover_image images =
     (if truthy images then
        (case member_length images of
           Inl e \<Rightarrow> Inl e
         | Inr n \<Rightarrow> if gt_zero n then member_first images else Inr (JStr fallbackImage))
      else Inr (JStr fallbackImage))"

definition formatListing :: "jsobj \<Rightarrow> failure + jsobj" where
  "formatListing listing =
     (case cover_image (read_prop listing ''images'') of
        Inl e \<Rightarrow> Inl e
      | Inr img \<Rightarrow> Inr
         [(''id'', read_prop listing ''id''),
          (''title'', read_prop listing ''title''),
          (''price'', read_prop listing ''price''),
          (''year'', read_prop listing ''year''),
          (''mileage'', read_prop listing ''mileage''),
          (''location'', read_prop listing ''location''),
          (''image'', img),
          (''seller'', read_prop listing ''seller_name''),
          (''sellerId'', read_prop listing ''seller_id''),
          (''sellerType'', read_prop listing ''seller_type''),
          (''category'', read_prop listing ''category''),
          (''brand'', read_prop listing ''brand''),
          (''model'', read_prop listing ''model''),
          (''featured'', js_or (read_prop listing ''featured'') (JBool False)),
          (''availability'', js_or (read_prop listing ''availability'') (JStr ''pe_stoc''))])"

section \<open>The data source and the view state\<close>

text \<open>
  \<^verbatim>\<open>listings.getAll(filter?)\<close> lives in \<^verbatim>\<open>../lib/supabase\<close>, outside the page; it
  is a parameter here. A call resolves to \<^verbatim>\<open>{ data, error }\<close> (each possibly null) or
  rejects with an exception.
\<close>

datatype listing_filter = ListingFilter "bool option" "string option"
  \<comment> \<open>\<^verbatim>\<open>{ featured?, category? }\<close>\<close>

datatype response =
    Resolved "jsobj list option" "failure option"
  | Rejected failure

type_synonym data_source = "listing_filter option \<Rightarrow> response"

fun str_includes :: "string \<Rightarrow> string \<Rightarrow> bool" where
  \<comment> \<open>\<^verbatim>\<open>s.includes(sub)\<close>: \<open>sub\<close> occurs in \<open>s\<close> as a contiguous run\<close>
  "str_includes [] sub = (sub = [])"
| "str_includes (c # cs) sub = (take (length sub) (c # cs) = sub \<or> str_includes cs sub)"

definition opt_includes :: "string option \<Rightarrow> string \<Rightarrow> bool" where
  \<comment> \<open>\<^verbatim>\<open>m?.includes(sub)\<close> as a condition: undefined is falsy\<close>
  "opt_includes m sub = (case m of None \<Rightarrow> False | Some s \<Rightarrow> str_includes s sub)"

definition connectivity :: "failure \<Rightarrow> bool" where
  \<comment> \<open>\<^verbatim>\<open>e.message?.includes('fetch') || e.message?.includes('network')\<close>\<close>
  "connectivity e = (opt_includes (message e) ''fetch'' \<or> opt_includes (message e) ''network'')"

text \<open>
  The localized texts passed to \<^verbatim>\<open>setError\<close>, one constructor per text:
  \<^item> \<open>FeaturedLoadFailed\<close>: "Nu s-au putut incarca anunturile recomandate";
  \<^item> \<open>RecentLoadFailed\<close>: "Nu s-au putut incarca anunturile recente";
  \<^item> \<open>LoadListingsFailed\<close>: "A aparut o eroare la incarcarea anunturilor";
  \<^item> \<open>CategoryLoadFailed c\<close>: "Nu s-au putut incarca anunturile din categoria c";
  \<^item> \<open>CategoryFilterFailed c\<close>: "A aparut o eroare la filtrarea dupa categoria c".
\<close>

datatype ui_message =
    FeaturedLoadFailed
  | RecentLoadFailed
  | LoadListingsFailed
  | CategoryLoadFailed string
  | CategoryFilterFailed string

record view_state =
  featuredListings :: "jsobj list"
  recentListings :: "jsobj list"
  isLoading :: bool
  error :: "ui_message option"
  networkError :: "failure option"

definition or_empty :: "jsobj list option \<Rightarrow> jsobj list" where
  \<comment> \<open>\<^verbatim>\<open>data || []\<close>\<close>
  "or_empty d = (case d of None \<Rightarrow> [] | Some rows \<Rightarrow> rows)"

fun map_throwing :: "('a \<Rightarrow> failure + 'b) \<Rightarrow> 'a list \<Rightarrow> failure + 'b list" where
  \<comment> \<open>\<^verbatim>\<open>xs.map(f)\<close> where \<open>f\<close> may throw: the first exception ends the map\<close>
  "map_throwing f [] = Inr []"
| "map_throwing f (x # xs) =
     (case f x of
        Inl e \<Rightarrow> Inl e
      | Inr y \<Rightarrow> (case map_throwing f xs of Inl e \<Rightarrow> Inl e | Inr ys \<Rightarrow> Inr (y # ys)))"

definition same_id :: "jsobj \<Rightarrow> jsobj \<Rightarrow> bool" where
  \<comment> \<open>\<^verbatim>\<open>f.id === listing.id\<close>\<close>
  "same_id f listing = strict_eq (read_prop f ''id'') (read_prop listing ''id'')"

section \<open>loadListings\<close>

text \<open>
  The \<^verbatim>\<open>try\<close> block returns the state it reached and the exception it threw, if any;
  every \<^verbatim>\<open>return\<close> inside it leaves with no exception.
\<close>

definition loadListings_try :: "data_source \<Rightarrow> view_state \<Rightarrow> view_state \<times> failure option" where
  "loadListings_try getAll s0 =
     (let s = s0\<lparr>isLoading := True, error := None, networkError := None\<rparr> in
      case getAll (Some (ListingFilter (Some True) None)) of
        Rejected ex \<Rightarrow> (s, Some ex)
      | Resolved featuredData featuredError \<Rightarrow>
         (case featuredError of
            Some fe \<Rightarrow>
              if connectivity fe then (s\<lparr>networkError := Some fe\<rparr>, None)
              else (s\<lparr>error := Some FeaturedLoadFailed\<rparr>, None)
          | None \<Rightarrow>
             (case getAll None of
                Rejected ex \<Rightarrow> (s, Some ex)
              | Resolved recentData recentError \<Rightarrow>
                 (case recentError of
                    Some re \<Rightarrow>
                      if connectivity re then (s\<lparr>networkError := Some re\<rparr>, None)
                      else (s\<lparr>error := Some RecentLoadFailed\<rparr>, None)
                  | None \<Rightarrow>
                     (case map_throwing formatListing (take 4 (or_empty featuredData)) of
                        Inl ex \<Rightarrow> (s, Some ex)
                      | Inr formattedFeatured \<Rightarrow>
                         (case map_throwing formatListing
                                 (take 8 (filter (\<lambda>listing. \<not> list_ex (\<lambda>f. same_id f listing)
                                                      formattedFeatured)
                                            (or_empty recentData))) of
                            Inl ex \<Rightarrow> (s, Some ex)
                          | Inr formattedRecent \<Rightarrow>
                              (s\<lparr>featuredListings := formattedFeatured,
                                 recentListings := formattedRecent\<rparr>, None)))))))"

definition loadListings :: "data_source \<Rightarrow> view_state \<Rightarrow> view_state" where
  \<comment> \<open>try, then catch on an exception, then finally\<close>
  "loadListings getAll s0 =
     (let caught =
        (case loadListings_try getAll s0 of
           (s, None) \<Rightarrow> s
         | (s, Some err) \<Rightarrow>
             if connectivity err then s\<lparr>networkError := Some err\<rparr>
             else s\<lparr>error := Some LoadListingsFailed\<rparr>)
      in caught\<lparr>isLoading := False\<rparr>)"

section \<open>handleCategoryClick\<close>

definition handleCategoryClick_try ::
  "data_source \<Rightarrow> string \<Rightarrow> view_state \<Rightarrow> view_state \<times> failure option" where
  "handleCategoryClick_try getAll category s0 =
     (let s = s0\<lparr>isLoading := True, error := None, networkError := None\<rparr> in
      case getAll (Some (ListingFilter None (Some category))) of
        Rejected ex \<Rightarrow> (s, Some ex)
      | Resolved data err \<Rightarrow>
         (case err of
            Some e \<Rightarrow>
              if connectivity e then (s\<lparr>networkError := Some e\<rparr>, None)
              else (s\<lparr>error := Some (CategoryLoadFailed category)\<rparr>, None)
          | None \<Rightarrow>
             (case map_throwing formatListing (or_empty data) of
                Inl ex \<Rightarrow> (s, Some ex)
              | Inr formattedListings \<Rightarrow>
                  (s\<lparr>featuredListings := [], recentListings := formattedListings\<rparr>, None))))"

definition handleCategoryClick :: "data_source \<Rightarrow> string \<Rightarrow> view_state \<Rightarrow> view_state" where
  "handleCategoryClick getAll category s0 =
     (let caught =
        (case handleCategoryClick_try getAll category s0 of
           (s, None) \<Rightarrow> s
         | (s, Some err) \<Rightarrow>
             if connectivity err then s\<lparr>networkError := Some err\<rparr>
             else s\<lparr>error := Some (CategoryFilterFailed category)\<rparr>)
      in caught\<lparr>isLoading := False\<rparr>)"

section \<open>Notions used to state the properties\<close>

abbreviation featured_query :: "listing_filter option" where
  "featured_query \<equiv> Some (ListingFilter (Some True) None)"

abbreviation category_query :: "string \<Rightarrow> listing_filter option" where
  "category_query c \<equiv> Some (ListingFilter None (Some c))"

fun failure_of :: "response \<Rightarrow> failure option" where
  \<comment> \<open>the failure of a fetch: the exception it rejects with, or the error it carries\<close>
  "failure_of (Rejected e) = Some e"
| "failure_of (Resolved d (Some e)) = Some e"
| "failure_of (Resolved d None) = None"

definition loadListings_failure :: "data_source \<Rightarrow> failure option" where
  \<comment> \<open>the failure loadListings meets: of the featured fetch, else of the recent fetch\<close>
  "loadListings_failure getAll =
     (case failure_of (getAll featured_query) of
        Some e \<Rightarrow> Some e
      | None \<Rightarrow> failure_of (getAll None))"

definition network_error_state :: "failure \<Rightarrow> view_state \<Rightarrow> bool" where
  "network_error_state e s = (networkError s = Some e \<and> error s = None)"

definition application_error_state :: "view_state \<Rightarrow> bool" where
  "application_error_state s = (error s \<noteq> None \<and> networkError s = None)"

definition formatListing_twice :: "jsobj \<Rightarrow> failure + jsobj" where
  \<comment> \<open>\<^verbatim>\<open>formatListing(formatListing(r))\<close>\<close>
  "formatListing_twice r =
     (case formatListing r of Inl e \<Rightarrow> Inl e | Inr d \<Rightarrow> formatListing d)"

subsection \<open>Sample inputs\<close>

definition initial_state :: view_state where
  \<comment> \<open>the \<^verbatim>\<open>useState\<close> initial values\<close>
  "initial_state =
     \<lparr>featuredListings = [], recentListings = [], isLoading = True,
      error = None, networkError = None\<rparr>"

definition listing_of :: "bool \<Rightarrow> string \<Rightarrow> jsobj" where
  "listing_of f i = [(''id'', JStr i), (''seller_name'', JStr ''Ana''), (''featured'', JBool f)]"

definition display_of :: "bool \<Rightarrow> string \<Rightarrow> jsobj" where
  \<comment> \<open>the display record expected for \<open>listing_of f i\<close>\<close>
  "display_of f i =
     [(''id'', JStr i), (''title'', JUndefined), (''price'', JUndefined),
      (''year'', JUndefined), (''mileage'', JUndefined), (''location'', JUndefined),
      (''image'', JStr fallbackImage), (''seller'', JStr ''Ana''),
      (''sellerId'', JUndefined), (''sellerType'', JUndefined),
      (''category'', JUndefined), (''brand'', JUndefined), (''model'', JUndefined),
      (''featured'', JBool f), (''availability'', JStr ''pe_stoc'')]"

definition sample_source :: data_source where
  \<comment> \<open>five featured listings; eleven listings in all, two of them among the featured;
      three listings in any category\<close>
  "sample_source q =
     (case q of
        None \<Rightarrow>
          Resolved (Some [listing_of True ''f1'', listing_of False ''n1'',
                          listing_of True ''f2'', listing_of False ''n2'',
                          listing_of False ''n3'', listing_of False ''n4'',
                          listing_of False ''n5'', listing_of False ''n6'',
                          listing_of False ''n7'', listing_of False ''n8'',
                          listing_of False ''n9'']) None
      | Some (ListingFilter (Some b) c) \<Rightarrow>
          Resolved (Some [listing_of True ''f1'', listing_of True ''f2'',
                          listing_of True ''f3'', listing_of True ''f4'',
                          listing_of True ''f5'']) None
      | Some (ListingFilter None c) \<Rightarrow>
          Resolved (Some [listing_of True ''f1'', listing_of False ''n1'', listing_of True ''f2''])
            None)"

definition network_down :: failure where
  "network_down = \<lparr>message = Some ''network request failed''\<rparr>"

definition permission_denied :: failure where
  "permission_denied = \<lparr>message = Some ''permission denied for table listings''\<rparr>"

definition offline_source :: data_source where
  "offline_source q = Rejected network_down"

definition denied_source :: data_source where
  "denied_source q = Resolved None (Some permission_denied)"

definition recent_denied_source :: data_source where
  \<comment> \<open>the featured fetch succeeds, every other fetch carries an error\<close>
  "recent_denied_source q =
     (if q = featured_query then sample_source q else Resolved None (Some permission_denied))"

definition populated_state :: view_state where
  "populated_state =
     \<lparr>featuredListings = [listing_of True ''old1''], recentListings = [listing_of False ''old2''],
      isLoading = False, error = None, networkError = None\<rparr>"

section \<open>SQL values\<close>

text \<open>
  From the migration \<^verbatim>\<open>20250701150123_dusty_morning.sql\<close>. A column value is
  \<open>None\<close> when it is NULL, and a condition has three values: true, false and unknown
  (\<open>None\<close>). A row passes a condition only when the condition is true.
\<close>

type_synonym uuid = string

definition sql_eq :: "'a option \<Rightarrow> 'a option \<Rightarrow> bool option" where
  "sql_eq a b =
     (case a of None \<Rightarrow> None
      | Some x \<Rightarrow> (case b of None \<Rightarrow> None | Some y \<Rightarrow> Some (x = y)))"

definition sql_and :: "bool option \<Rightarrow> bool option \<Rightarrow> bool option" where
  "sql_and p q =
     (if p = Some False \<or> q = Some False then Some False
      else if p = Some True \<and> q = Some True then Some True
      else None)"

definition is_not_null :: "'a option \<Rightarrow> bool option" where
  "is_not_null a = Some (a \<noteq> None)"

definition sql_in :: "'a option \<Rightarrow> 'a list \<Rightarrow> bool option" where
  \<comment> \<open>\<^verbatim>\<open>v IN (subquery)\<close> over a subquery whose rows are not NULL\<close>
  "sql_in v rows =
     (if rows = [] then Some False
      else case v of None \<Rightarrow> None | Some x \<Rightarrow> Some (x \<in> set rows))"

definition COALESCE :: "'a option \<Rightarrow> 'a option \<Rightarrow> 'a option" where
  "COALESCE a b = (case a of None \<Rightarrow> b | Some x \<Rightarrow> Some x)"

definition split_part_1 :: "string option \<Rightarrow> char \<Rightarrow> string option" where
  \<comment> \<open>\<^verbatim>\<open>split_part(s, d, 1)\<close>: the text before the first \<open>d\<close>, all of it when there is none\<close>
  "split_part_1 s d = (case s of None \<Rightarrow> None | Some t \<Rightarrow> Some (takeWhile (\<lambda>c. c \<noteq> d) t))"

definition admin_email :: string where
  "admin_email = ''admin@nexar.ro''"

section \<open>Row-level policies on listings\<close>

record caller =
  auth_uid :: "uuid option"
  auth_email :: "string option"

text \<open>
  The policies read two columns of a listing, and \<^verbatim>\<open>id\<close> and \<^verbatim>\<open>user_id\<close> of
  \<^verbatim>\<open>profiles\<close>: a profiles table is given as its rows projected to that pair.
\<close>

record listing_row =
  status :: "string option"
  seller_id :: "uuid option"

type_synonym profiles_table = "(uuid \<times> uuid option) list"

datatype command = Select | Insert | Update | Delete

text \<open>
  A policy has a name, a command and an expression (\<open>qual\<close>): the USING expression, for
  INSERT the WITH CHECK expression.
\<close>

record policy =
  policyname :: string
  cmd :: command
  qual :: "caller \<Rightarrow> profiles_table \<Rightarrow> listing_row \<Rightarrow> bool option"

definition own_profile_ids :: "caller \<Rightarrow> profiles_table \<Rightarrow> uuid list" where
  \<comment> \<open>\<^verbatim>\<open>SELECT id FROM profiles WHERE user_id = auth.uid() LIMIT 1\<close>\<close>
  "own_profile_ids c tbl =
     take 1 (map fst (filter (\<lambda>p. sql_eq (snd p) (auth_uid c) = Some True) tbl))"

definition is_own :: "caller \<Rightarrow> profiles_table \<Rightarrow> listing_row \<Rightarrow> bool option" where
  \<comment> \<open>\<^verbatim>\<open>auth.uid() IS NOT NULL AND seller_id IN (SELECT id ... LIMIT 1)\<close>\<close>
  "is_own c tbl l =
     sql_and (is_not_null (auth_uid c)) (sql_in (seller_id l) (own_profile_ids c tbl))"

definition is_admin_email :: "caller \<Rightarrow> profiles_table \<Rightarrow> listing_row \<Rightarrow> bool option" where
  \<comment> \<open>\<^verbatim>\<open>auth.email() = 'admin@nexar.ro'\<close>\<close>
  "is_admin_email c tbl l = sql_eq (auth_email c) (Some admin_email)"

definition owner_policies :: "policy list" where
  \<comment> \<open>Step 5\<close>
  "owner_policies =
     [\<lparr>policyname = ''listings_select_active'', cmd = Select,
        qual = (\<lambda>c tbl l. sql_eq (status l) (Some ''active''))\<rparr>,
      \<lparr>policyname = ''listings_select_own'', cmd = Select, qual = is_own\<rparr>,
      \<lparr>policyname = ''listings_insert_authenticated'', cmd = Insert,
        qual = (\<lambda>c tbl l. is_not_null (auth_uid c))\<rparr>,
      \<lparr>policyname = ''listings_update_own'', cmd = Update, qual = is_own\<rparr>,
      \<lparr>policyname = ''listings_delete_own'', cmd = Delete, qual = is_own\<rparr>]"

definition admin_policies :: "policy list" where
  \<comment> \<open>Step 10\<close>
  "admin_policies =
     [\<lparr>policyname = ''admin_select_all_listings'', cmd = Select, qual = is_admin_email\<rparr>,
      \<lparr>policyname = ''admin_update_all_listings'', cmd = Update, qual = is_admin_email\<rparr>,
      \<lparr>policyname = ''admin_delete_all_listings'', cmd = Delete, qual = is_admin_email\<rparr>]"

definition drop_all_policies :: "policy list \<Rightarrow> policy list" where
  \<comment> \<open>Step 2: for each policy name found on the table, DROP POLICY IF EXISTS\<close>
  "drop_all_policies existing =
     foldl (\<lambda>ps r. filter (\<lambda>p. policyname p \<noteq> r) ps) existing (map policyname existing)"

definition repair_listings_policies :: "policy list \<Rightarrow> policy list" where
  \<comment> \<open>what the migration leaves on \<^verbatim>\<open>listings\<close>, given the policies it finds there\<close>
  "repair_listings_policies existing =
     drop_all_policies existing @ owner_policies @ admin_policies"

definition grants ::
  "policy list \<Rightarrow> command \<Rightarrow> caller \<Rightarrow> profiles_table \<Rightarrow> listing_row \<Rightarrow> bool" where
  \<comment> \<open>permissive policies: some policy for the command is true on the row\<close>
  "grants ps k c tbl l = list_ex (\<lambda>p. cmd p = k \<and> qual p c tbl l = Some True) ps"

section \<open>The provisioning trigger\<close>

text \<open>
  \<^verbatim>\<open>raw_user_meta_data\<close> is a JSON object; \<^verbatim>\<open>->>\<close> reads a key as text. A key maps
  to \<open>Some t\<close>, the text of its value, or to \<open>None\<close> when the value is JSON null.
\<close>

type_synonym jsonb_object = "(string \<times> string option) list"

definition json_text :: "jsonb_object option \<Rightarrow> string \<Rightarrow> string option" where
  \<comment> \<open>\<^verbatim>\<open>meta->>'k'\<close>: NULL when the column is NULL, the key absent or the value null\<close>
  "json_text meta k =
     (case meta of None \<Rightarrow> None
      | Some obj \<Rightarrow> (case map_of obj k of None \<Rightarrow> None | Some v \<Rightarrow> v))"

record auth_user =
  users_id :: uuid
  users_email :: "string option"
  raw_user_meta_data :: "jsonb_object option"

record profile =
  user_id :: "uuid option"
  name :: "string option"
  email :: "string option"
  phone :: "string option"
  location :: "string option"
  seller_type :: "string option"
  is_admin :: "bool option"
  verified :: "bool option"

record database =
  users :: "auth_user list"
  profiles :: "profile list"
  warnings :: "string list"

text \<open>
  The definition of \<^verbatim>\<open>profiles\<close> (its constraints) is not part of the migration: whether
  the table rejects a row, and with which message, is the parameter \<open>rejects\<close>.
\<close>

type_synonym constraints = "profile list \<Rightarrow> profile \<Rightarrow> string option"

definition insert_into_profiles ::
  "constraints \<Rightarrow> profile \<Rightarrow> database \<Rightarrow> string + database" where
  "insert_into_profiles rejects row db =
     (case rejects (profiles db) row of
        Some sqlerrm \<Rightarrow> Inl sqlerrm
      | None \<Rightarrow> Inr (db\<lparr>profiles := profiles db @ [row]\<rparr>))"

definition new_profile :: "auth_user \<Rightarrow> profile" where
  \<comment> \<open>the VALUES list of the INSERT\<close>
  "new_profile NEW =
     \<lparr>user_id = Some (users_id NEW),
      name = COALESCE (json_text (raw_user_meta_data NEW) ''name'')
                      (split_part_1 (users_email NEW) CHR ''@''),
      email = users_email NEW,
      phone = COALESCE (json_text (raw_user_meta_data NEW) ''phone'') (Some []),
      location = COALESCE (json_text (raw_user_meta_data NEW) ''location'') (Some []),
      seller_type =
        COALESCE (json_text (raw_user_meta_data NEW) ''sellerType'') (Some ''individual''),
      is_admin = sql_eq (users_email NEW) (Some admin_email),
      verified = Some False\<rparr>"

definition raise_warning :: "auth_user \<Rightarrow> string \<Rightarrow> database \<Rightarrow> database" where
  \<comment> \<open>\<^verbatim>\<open>RAISE WARNING 'Failed to create profile for user %: %', NEW.id, SQLERRM\<close>\<close>
  "raise_warning NEW sqlerrm db =
     db\<lparr>warnings := warnings db @
        [''Failed to create profile for user '' @ users_id NEW @ '': '' @ sqlerrm]\<rparr>"

definition exception_when_others ::
  "(database \<Rightarrow> string + database \<times> 'a) \<Rightarrow>
   (string \<Rightarrow> database \<Rightarrow> string + database \<times> 'a) \<Rightarrow>
   database \<Rightarrow> string + database \<times> 'a" where
  \<comment> \<open>a block with \<^verbatim>\<open>EXCEPTION WHEN OTHERS THEN\<close>: an error of the body undoes the
      body's changes and runs the handler\<close>
  "exception_when_others body handler db =
     (case body db of Inl sqlerrm \<Rightarrow> handler sqlerrm db | Inr r \<Rightarrow> Inr r)"

definition handle_new_user ::
  "constraints \<Rightarrow> auth_user \<Rightarrow> database \<Rightarrow> string + database \<times> auth_user" where
  "handle_new_user rejects NEW =
     exception_when_others
       (\<lambda>db. case insert_into_profiles rejects (new_profile NEW) db of
                Inl sqlerrm \<Rightarrow> Inl sqlerrm
              | Inr db' \<Rightarrow> Inr (db', NEW))
       (\<lambda>sqlerrm db. Inr (raise_warning NEW sqlerrm db, NEW))"

definition create_account :: "constraints \<Rightarrow> auth_user \<Rightarrow> database \<Rightarrow> string + database" where
  \<comment> \<open>Step 12: the trigger runs after each insert on \<^verbatim>\<open>auth.users\<close>; an error it
      raises aborts the insert\<close>
  "create_account rejects NEW db =
     (case handle_new_user rejects NEW (db\<lparr>users := users db @ [NEW]\<rparr>) of
        Inl sqlerrm \<Rightarrow> Inl sqlerrm
      | Inr (db', _) \<Rightarrow> Inr db')"

subsection \<open>Sample accounts, tables and callers\<close>

definition signup_without_contact :: auth_user where
  "signup_without_contact =
     \<lparr>users_id = ''u-1'', users_email = Some ''ana@example.com'',
      raw_user_meta_data = Some [(''name'', Some ''Ana'')]\<rparr>"

definition signup_admin :: auth_user where
  "signup_admin =
     \<lparr>users_id = ''u-2'', users_email = Some ''admin@nexar.ro'',
      raw_user_meta_data = Some [(''is_admin'', Some ''false''), (''verified'', Some ''true'')]\<rparr>"

definition empty_database :: database where
  "empty_database = \<lparr>users = [], profiles = [], warnings = []\<rparr>"

definition accepts_all :: constraints where
  "accepts_all tbl row = None"

definition unique_user_id :: constraints where
  \<comment> \<open>a table that rejects a second profile of the same account\<close>
  "unique_user_id tbl row =
     (if user_id row \<in> set (map user_id tbl)
      then Some ''duplicate key value violates unique constraint'' else None)"

definition admin_caller :: caller where
  "admin_caller = \<lparr>auth_uid = Some ''u-2'', auth_email = Some ''admin@nexar.ro''\<rparr>"

definition other_caller :: caller where
  "other_caller = \<lparr>auth_uid = Some ''u-1'', auth_email = Some ''ana@example.com''\<rparr>"

definition sample_profiles :: profiles_table where
  "sample_profiles = [(''p-1'', Some ''u-1''), (''p-2'', Some ''u-2'')]"

definition sold_listing :: listing_row where
  \<comment> \<open>an inactive listing whose seller is the profile of account u-1\<close>
  "sold_listing = \<lparr>status = Some ''sold'', seller_id = Some ''p-1''\<rparr>"

section \<open>Facts about the JavaScript helpers\<close>

lemma str_includes_iff: "str_includes s sub \<longleftrightarrow> (\<exists>p q. s = p @ sub @ q)"
proof (induction s)
  case Nil
  then show ?case by auto
next
  case (Cons c cs)
  have "take (length sub) (c # cs) = sub \<longleftrightarrow> (\<exists>q. c # cs = sub @ q)"
    by (metis append_eq_conv_conj append_take_drop_id)
  moreover have "(\<exists>p q. c # cs = p @ sub @ q) \<longleftrightarrow>
      (\<exists>q. c # cs = sub @ q) \<or> (\<exists>p q. cs = p @ sub @ q)"
  proof
    assume "\<exists>p q. c # cs = p @ sub @ q"
    then obtain p q where pq: "c # cs = p @ sub @ q" by blast
    show "(\<exists>q. c # cs = sub @ q) \<or> (\<exists>p q. cs = p @ sub @ q)"
    proof (cases p)
      case Nil
      with pq show ?thesis by auto
    next
      case (Cons a p')
      with pq have "cs = p' @ sub @ q" by simp
      then show ?thesis by blast
    qed
  next
    assume "(\<exists>q. c # cs = sub @ q) \<or> (\<exists>p q. cs = p @ sub @ q)"
    then show "\<exists>p q. c # cs = p @ sub @ q"
    proof
      assume "\<exists>q. c # cs = sub @ q"
      then show ?thesis by (metis append_Nil)
    next
      assume "\<exists>p q. cs = p @ sub @ q"
      then obtain p q where "cs = p @ sub @ q" by blast
      then have "c # cs = (c # p) @ sub @ q" by simp
      then show ?thesis by blast
    qed
  qed
  ultimately show ?case using Cons.IH by simp
qed

lemma strict_eq_iff: "strict_eq a b \<longleftrightarrow> a = b \<and> primitive a"
  by (cases a; cases b) simp_all

lemma cover_image_total: "\<exists>v. cover_image images = Inr v"
  by (cases images) (simp_all add: cover_image_def)

lemma cover_image_missing:
  "images = JUndefined \<or> images = JNull \<or> images = JArr [] \<Longrightarrow>
   cover_image images = Inr (JStr fallbackImage)"
  by (auto simp: cover_image_def)

lemma formatListing_total: "\<exists>d. formatListing r = Inr d"
  using cover_image_total [of "read_prop r ''images''"]
  by (auto simp: formatListing_def)

lemma formatListing_id: "formatListing r = Inr d \<Longrightarrow> read_prop d ''id'' = read_prop r ''id''"
  by (auto simp: formatListing_def read_prop_def split: sum.splits)

text \<open>
  Claim C2. formatListing never throws on a row object. Where the row's \<^verbatim>\<open>images\<close> is
  missing (undefined or null) or the empty array, the display image is the fallback;
  where \<^verbatim>\<open>availability\<close> is missing, the display availability is "pe_stoc" (in stock);
  where \<^verbatim>\<open>featured\<close> is missing, the display flag is false.
\<close>

theorem formatListing_total_defaults:
  "\<exists>d. formatListing r = Inr d \<and>
     (read_prop r ''images'' \<in> {JUndefined, JNull, JArr []} \<longrightarrow>
        read_prop d ''image'' = JStr fallbackImage) \<and>
     (read_prop r ''availability'' \<in> {JUndefined, JNull} \<longrightarrow>
        read_prop d ''availability'' = JStr ''pe_stoc'') \<and>
     (read_prop r ''featured'' \<in> {JUndefined, JNull} \<longrightarrow>
        read_prop d ''featured'' = JBool False)"
proof -
  obtain img where img: "cover_image (read_prop r ''images'') = Inr img"
    using cover_image_total by blast
  have fb: "read_prop r ''images'' \<in> {JUndefined, JNull, JArr []} \<Longrightarrow> img = JStr fallbackImage"
    using cover_image_missing [of "read_prop r ''images''"] img by auto
  show ?thesis
    using img fb by (auto simp: formatListing_def js_or_def read_prop_def [of "_ # _"])
qed

theorem formatListing_total_defaults_witness:
  "\<exists>d. formatListing [(''id'', JStr ''a1'')] = Inr d \<and>
     read_prop d ''image'' = JStr fallbackImage \<and>
     read_prop d ''availability'' = JStr ''pe_stoc'' \<and>
     read_prop d ''featured'' = JBool False"
  using formatListing_total_defaults [of "[(''id'', JStr ''a1'')]"]
  by (simp add: read_prop_def)

section \<open>loadListings on success\<close>

lemma map_throwing_total:
  "(\<And>x. \<exists>y. f x = Inr y) \<Longrightarrow> \<exists>ys. map_throwing f xs = Inr ys"
proof (induction xs)
  case Nil
  show ?case by simp
next
  case (Cons x xs)
  from Cons.prems obtain y where "f x = Inr y" by blast
  moreover from Cons obtain ys where "map_throwing f xs = Inr ys" by blast
  ultimately show ?case by simp
qed

lemma map_throwing_Inr:
  "map_throwing f xs = Inr ys \<Longrightarrow> list_all2 (\<lambda>x y. f x = Inr y) xs ys"
  by (induction xs arbitrary: ys) (auto split: sum.splits)

lemma map_formatListing_total: "\<exists>ys. map_throwing formatListing xs = Inr ys"
  by (rule map_throwing_total) (rule formatListing_total)

lemma loadListings_success:
  assumes f: "getAll featured_query = Resolved fd None"
    and r: "getAll None = Resolved rd None"
  shows "\<exists>ff fr.
     map_throwing formatListing (take 4 (or_empty fd)) = Inr ff \<and>
     map_throwing formatListing
       (take 8 (filter (\<lambda>l. \<not> list_ex (\<lambda>f. same_id f l) ff) (or_empty rd))) = Inr fr \<and>
     loadListings getAll s =
       s\<lparr>featuredListings := ff, recentListings := fr, isLoading := False,
         error := None, networkError := None\<rparr>"
proof -
  obtain ff where ff: "map_throwing formatListing (take 4 (or_empty fd)) = Inr ff"
    using map_formatListing_total by blast
  obtain fr where fr: "map_throwing formatListing
       (take 8 (filter (\<lambda>l. \<not> list_ex (\<lambda>f. same_id f l) ff) (or_empty rd))) = Inr fr"
    using map_formatListing_total by blast
  have "loadListings getAll s =
       s\<lparr>featuredListings := ff, recentListings := fr, isLoading := False,
         error := None, networkError := None\<rparr>"
    by (simp add: loadListings_def loadListings_try_def f r ff fr)
  with ff fr show ?thesis by blast
qed

text \<open>
  Claim C1. Whatever two result lists the data source returns, once both fetches of
  loadListings have succeeded the featured list put into the state has at most 4 entries,
  the recent list has at most 8, and no entry of the recent list has an id equal
  (\<^verbatim>\<open>===\<close>, and so also plainly equal when the id is a string, a number or another
  primitive) to the id of an entry of the featured list.
\<close>

theorem loadListings_display_bounds:
  assumes "getAll featured_query = Resolved fd None"
    and "getAll None = Resolved rd None"
  shows "length (featuredListings (loadListings getAll s)) \<le> 4 \<and>
     length (recentListings (loadListings getAll s)) \<le> 8 \<and>
     (\<forall>shown \<in> set (recentListings (loadListings getAll s)).
        \<forall>f \<in> set (featuredListings (loadListings getAll s)).
          \<not> same_id f shown \<and>
          (primitive (read_prop shown ''id'') \<longrightarrow> read_prop f ''id'' \<noteq> read_prop shown ''id''))"
proof -
  let ?keep = "\<lambda>ff l. \<not> list_ex (\<lambda>f. same_id f l) ff"
  from loadListings_success [OF assms, of s] obtain ff fr where
    ff: "map_throwing formatListing (take 4 (or_empty fd)) = Inr ff" and
    fr: "map_throwing formatListing (take 8 (filter (?keep ff) (or_empty rd))) = Inr fr" and
    st: "loadListings getAll s =
       s\<lparr>featuredListings := ff, recentListings := fr, isLoading := False,
         error := None, networkError := None\<rparr>"
    by blast
  have lf: "length ff \<le> 4"
    using map_throwing_Inr [OF ff] by (auto dest: list_all2_lengthD)
  have lr: "length fr \<le> 8"
    using map_throwing_Inr [OF fr] by (auto dest: list_all2_lengthD)
  have disj: "\<not> same_id f shown \<and>
      (primitive (read_prop shown ''id'') \<longrightarrow> read_prop f ''id'' \<noteq> read_prop shown ''id'')"
    if shown: "shown \<in> set fr" and f: "f \<in> set ff" for shown f
  proof -
    from shown obtain i where i: "i < length fr" "fr ! i = shown"
      by (auto simp: in_set_conv_nth)
    let ?src = "take 8 (filter (?keep ff) (or_empty rd))"
    have all2: "list_all2 (\<lambda>x y. formatListing x = Inr y) ?src fr"
      by (rule map_throwing_Inr [OF fr])
    then have len: "length ?src = length fr" by (rule list_all2_lengthD)
    from all2 i have fmt: "formatListing (?src ! i) = Inr shown"
      by (auto dest: list_all2_nthD2)
    have "?src ! i \<in> set ?src" using i len by (simp only: nth_mem)
    then have "?src ! i \<in> set (filter (?keep ff) (or_empty rd))"
      by (rule in_set_takeD)
    then have "?keep ff (?src ! i)" by simp
    with f have "\<not> same_id f (?src ! i)" by (auto simp: list_ex_iff)
    moreover have "read_prop shown ''id'' = read_prop (?src ! i) ''id''"
      by (rule formatListing_id [OF fmt])
    ultimately have ns: "\<not> same_id f shown" by (simp add: same_id_def)
    then show ?thesis by (auto simp: same_id_def strict_eq_iff)
  qed
  show ?thesis using lf lr disj by (simp add: st)
qed

lemma formatListing_sample: "formatListing (listing_of b i) = Inr (display_of b i)"
  by (simp add: formatListing_def listing_of_def read_prop_def cover_image_def js_or_def
      display_of_def)

lemma same_id_sample: "same_id (display_of b i) (listing_of c j) = (i = j)"
  by (simp add: same_id_def display_of_def listing_of_def read_prop_def)

lemma loadListings_sample:
  "loadListings sample_source initial_state =
     \<lparr>featuredListings =
        [display_of True ''f1'', display_of True ''f2'', display_of True ''f3'',
         display_of True ''f4''],
      recentListings =
        [display_of False ''n1'', display_of False ''n2'', display_of False ''n3'',
         display_of False ''n4'', display_of False ''n5'', display_of False ''n6'',
         display_of False ''n7'', display_of False ''n8''],
      isLoading = False, error = None, networkError = None\<rparr>"
  by (simp add: loadListings_def loadListings_try_def sample_source_def or_empty_def
      formatListing_sample same_id_sample initial_state_def)

theorem loadListings_display_bounds_witness:
  "length (featuredListings (loadListings sample_source initial_state)) = 4 \<and>
   length (recentListings (loadListings sample_source initial_state)) = 8 \<and>
   \<not> same_id (display_of True ''f1'')
        (hd (recentListings (loadListings sample_source initial_state)))"
proof -
  have f: "sample_source featured_query =
      Resolved (Some [listing_of True ''f1'', listing_of True ''f2'', listing_of True ''f3'',
                      listing_of True ''f4'', listing_of True ''f5'']) None"
    by (simp add: sample_source_def)
  have r: "sample_source None =
      Resolved (Some [listing_of True ''f1'', listing_of False ''n1'',
                          listing_of True ''f2'', listing_of False ''n2'',
                          listing_of False ''n3'', listing_of False ''n4'',
                          listing_of False ''n5'', listing_of False ''n6'',
                          listing_of False ''n7'', listing_of False ''n8'',
                          listing_of False ''n9'']) None"
    by (simp add: sample_source_def)
  show ?thesis
    using loadListings_display_bounds [OF f r, of initial_state]
    by (simp add: loadListings_sample)
qed

section \<open>Formatting twice\<close>

text \<open>
  Formatting twice is not formatting once: a row with a \<^verbatim>\<open>seller_name\<close> keeps it as
  \<^verbatim>\<open>seller\<close> in its display record, and the display record has no \<^verbatim>\<open>seller_name\<close>
  for the second pass to read.
\<close>

theorem formatListing_idempotent_counterexample:
  "formatListing_twice (listing_of True ''f1'') \<noteq> formatListing (listing_of True ''f1'')"
  by (simp add: formatListing_twice_def formatListing_sample)
   (simp add: formatListing_def display_of_def read_prop_def cover_image_def js_or_def)

text \<open>
  Claim C3, as the code has it. Formatting the display record of a row again never throws
  and keeps id, title, price, year, mileage, location, category, brand, model, featured and
  availability; it sets the image to the fallback and seller, sellerId and sellerType to
  undefined. So formatting twice equals formatting once exactly when the first display
  record already has the fallback image and no seller, sellerId and sellerType.
\<close>

theorem formatListing_twice_fields:
  assumes "formatListing r = Inr d"
  shows "\<exists>d2. formatListing_twice r = Inr d2 \<and>
     (\<forall>k \<in> {''id'', ''title'', ''price'', ''year'', ''mileage'', ''location'', ''category'',
             ''brand'', ''model'', ''featured'', ''availability''}.
        read_prop d2 k = read_prop d k) \<and>
     read_prop d2 ''image'' = JStr fallbackImage \<and>
     read_prop d2 ''seller'' = JUndefined \<and>
     read_prop d2 ''sellerId'' = JUndefined \<and>
     read_prop d2 ''sellerType'' = JUndefined \<and>
     (d2 = d \<longleftrightarrow>
        read_prop d ''image'' = JStr fallbackImage \<and> read_prop d ''seller'' = JUndefined \<and>
        read_prop d ''sellerId'' = JUndefined \<and> read_prop d ''sellerType'' = JUndefined)"
proof -
  obtain img where img: "cover_image (read_prop r ''images'') = Inr img"
    using cover_image_total by blast
  have d: "d = [(''id'', read_prop r ''id''),
          (''title'', read_prop r ''title''),
          (''price'', read_prop r ''price''),
          (''year'', read_prop r ''year''),
          (''mileage'', read_prop r ''mileage''),
          (''location'', read_prop r ''location''),
          (''image'', img),
          (''seller'', read_prop r ''seller_name''),
          (''sellerId'', read_prop r ''seller_id''),
          (''sellerType'', read_prop r ''seller_type''),
          (''category'', read_prop r ''category''),
          (''brand'', read_prop r ''brand''),
          (''model'', read_prop r ''model''),
          (''featured'', js_or (read_prop r ''featured'') (JBool False)),
          (''availability'', js_or (read_prop r ''availability'') (JStr ''pe_stoc''))]"
    using assms img by (simp add: formatListing_def)
  have or1: "js_or (js_or a b) b = js_or a b" for a b
    by (simp add: js_or_def)
  have ci: "cover_image JUndefined = Inr (JStr fallbackImage)"
    by (simp add: cover_image_def)
  show ?thesis
    unfolding formatListing_twice_def assms
    apply (simp add: d)
    apply (simp add: formatListing_def read_prop_def [of "_ # _"] ci or1)
    by (auto simp: read_prop_def)
qed

theorem formatListing_twice_fields_witness:
  "formatListing_twice (listing_of True ''f1'') =
     Inr [(''id'', JStr ''f1''), (''title'', JUndefined), (''price'', JUndefined),
      (''year'', JUndefined), (''mileage'', JUndefined), (''location'', JUndefined),
      (''image'', JStr fallbackImage), (''seller'', JUndefined),
      (''sellerId'', JUndefined), (''sellerType'', JUndefined),
      (''category'', JUndefined), (''brand'', JUndefined), (''model'', JUndefined),
      (''featured'', JBool True), (''availability'', JStr ''pe_stoc'')]"
  using formatListing_twice_fields [OF formatListing_sample, of True "''f1''"]
  by (simp add: formatListing_twice_def formatListing_sample)
   (simp add: formatListing_def display_of_def read_prop_def cover_image_def js_or_def)

section \<open>Failures of a fetch\<close>

lemma failure_of_Some:
  "failure_of resp = Some e \<longleftrightarrow> resp = Rejected e \<or> (\<exists>d. resp = Resolved d (Some e))"
  by (cases resp rule: failure_of.cases) auto

lemma failure_of_None: "failure_of resp = None \<longleftrightarrow> (\<exists>d. resp = Resolved d None)"
  by (cases resp rule: failure_of.cases) auto

lemma loadListings_failed:
  assumes "loadListings_failure getAll = Some e"
  shows "loadListings getAll s =
     s\<lparr>isLoading := False,
       error := error (loadListings getAll s),
       networkError := (if connectivity e then Some e else None)\<rparr> \<and>
     (error (loadListings getAll s) = None) = connectivity e"
proof (cases "failure_of (getAll featured_query)")
  case (Some e')
  with assms have [simp]: "e' = e" by (simp add: loadListings_failure_def)
  from Some show ?thesis
    unfolding failure_of_Some
    by (auto simp: loadListings_def loadListings_try_def)
next
  case None
  then obtain fd where fd: "getAll featured_query = Resolved fd None"
    unfolding failure_of_None by blast
  from None assms have "failure_of (getAll None) = Some e"
    by (simp add: loadListings_failure_def)
  then show ?thesis
    unfolding failure_of_Some
    by (auto simp: loadListings_def loadListings_try_def fd)
qed

lemma handleCategoryClick_failed:
  assumes "failure_of (getAll (category_query c)) = Some e"
  shows "handleCategoryClick getAll c s =
     s\<lparr>isLoading := False,
       error := error (handleCategoryClick getAll c s),
       networkError := (if connectivity e then Some e else None)\<rparr> \<and>
     (error (handleCategoryClick getAll c s) = None) = connectivity e"
  using assms unfolding failure_of_Some
  by (auto simp: handleCategoryClick_def handleCategoryClick_try_def)

text \<open>
  Claim C4. For the failure that loadListings meets (of the featured fetch, else of the
  recent fetch) and for the failure of the category fetch of handleCategoryClick, whether
  carried as the error of a response or thrown: a message containing "network" puts the
  view into the network-error state and not the application-error state; a message
  containing neither "fetch" nor "network" (or no message) puts it into the
  application-error state and not the network-error state.
\<close>

theorem failure_classification:
  "(loadListings_failure getAll = Some e \<longrightarrow>
      (opt_includes (message e) ''network'' \<longrightarrow>
         network_error_state e (loadListings getAll s) \<and>
         \<not> application_error_state (loadListings getAll s)) \<and>
      (\<not> opt_includes (message e) ''fetch'' \<and> \<not> opt_includes (message e) ''network'' \<longrightarrow>
         application_error_state (loadListings getAll s) \<and>
         \<not> network_error_state e (loadListings getAll s))) \<and>
   (failure_of (getAll (category_query c)) = Some e \<longrightarrow>
      (opt_includes (message e) ''network'' \<longrightarrow>
         network_error_state e (handleCategoryClick getAll c s) \<and>
         \<not> application_error_state (handleCategoryClick getAll c s)) \<and>
      (\<not> opt_includes (message e) ''fetch'' \<and> \<not> opt_includes (message e) ''network'' \<longrightarrow>
         application_error_state (handleCategoryClick getAll c s) \<and>
         \<not> network_error_state e (handleCategoryClick getAll c s)))"
proof (intro conjI impI)
  assume "loadListings_failure getAll = Some e"
  then have eq: "loadListings getAll s =
     s\<lparr>isLoading := False,
       error := error (loadListings getAll s),
       networkError := (if connectivity e then Some e else None)\<rparr>"
    and err: "(error (loadListings getAll s) = None) = connectivity e"
    using loadListings_failed [of getAll e s] by blast+
  have net: "networkError (loadListings getAll s) = (if connectivity e then Some e else None)"
    by (subst eq) simp
  note st = net err
  {
    assume "opt_includes (message e) ''network''"
    then have "connectivity e" by (simp add: connectivity_def)
    then show "network_error_state e (loadListings getAll s)"
      and "\<not> application_error_state (loadListings getAll s)"
      by (simp_all add: st network_error_state_def application_error_state_def)
  }
  {
    assume "\<not> opt_includes (message e) ''fetch'' \<and> \<not> opt_includes (message e) ''network''"
    then have "\<not> connectivity e" by (simp add: connectivity_def)
    then show "application_error_state (loadListings getAll s)"
      and "\<not> network_error_state e (loadListings getAll s)"
      by (simp_all add: st network_error_state_def application_error_state_def)
  }
next
  assume "failure_of (getAll (category_query c)) = Some e"
  then have eq: "handleCategoryClick getAll c s =
     s\<lparr>isLoading := False,
       error := error (handleCategoryClick getAll c s),
       networkError := (if connectivity e then Some e else None)\<rparr>"
    and err: "(error (handleCategoryClick getAll c s) = None) = connectivity e"
    using handleCategoryClick_failed [of getAll c e s] by blast+
  have net: "networkError (handleCategoryClick getAll c s) = (if connectivity e then Some e else None)"
    by (subst eq) simp
  note st = net err
  {
    assume "opt_includes (message e) ''network''"
    then have "connectivity e" by (simp add: connectivity_def)
    then show "network_error_state e (handleCategoryClick getAll c s)"
      and "\<not> application_error_state (handleCategoryClick getAll c s)"
      by (simp_all add: st network_error_state_def application_error_state_def)
  }
  {
    assume "\<not> opt_includes (message e) ''fetch'' \<and> \<not> opt_includes (message e) ''network''"
    then have "\<not> connectivity e" by (simp add: connectivity_def)
    then show "application_error_state (handleCategoryClick getAll c s)"
      and "\<not> network_error_state e (handleCategoryClick getAll c s)"
      by (simp_all add: st network_error_state_def application_error_state_def)
  }
qed

lemma network_down_includes: "opt_includes (message network_down) ''network''"
  by (simp add: network_down_def opt_includes_def)

lemma permission_denied_includes:
  "\<not> opt_includes (message permission_denied) ''fetch'' \<and>
   \<not> opt_includes (message permission_denied) ''network''"
  by (simp add: permission_denied_def opt_includes_def)

theorem failure_classification_witness:
  "network_error_state network_down (loadListings offline_source initial_state) \<and>
   network_error_state network_down (handleCategoryClick offline_source ''sport'' initial_state) \<and>
   application_error_state (loadListings denied_source initial_state) \<and>
   application_error_state (handleCategoryClick denied_source ''sport'' initial_state)"
proof -
  have 1: "loadListings_failure offline_source = Some network_down"
    and 2: "failure_of (offline_source (category_query ''sport'')) = Some network_down"
    and 3: "loadListings_failure denied_source = Some permission_denied"
    and 4: "failure_of (denied_source (category_query ''sport'')) = Some permission_denied"
    by (simp_all add: loadListings_failure_def offline_source_def denied_source_def)
  show ?thesis
    using failure_classification [of offline_source network_down initial_state "''sport''"]
      failure_classification [of denied_source permission_denied initial_state "''sport''"]
      1 2 3 4 network_down_includes permission_denied_includes
    by simp
qed

text \<open>
  Claim C5. For every category and every result list returned without error,
  handleCategoryClick sets the featured list to the empty list and the recent list to the
  formatted rows, all of them and in order, whatever their featured flags.
\<close>

theorem handleCategoryClick_success:
  assumes "getAll (category_query c) = Resolved d None"
  shows "featuredListings (handleCategoryClick getAll c s) = [] \<and>
     list_all2 (\<lambda>row shown. formatListing row = Inr shown)
       (or_empty d) (recentListings (handleCategoryClick getAll c s))"
proof -
  obtain ys where ys: "map_throwing formatListing (or_empty d) = Inr ys"
    using map_formatListing_total by blast
  have "handleCategoryClick getAll c s =
      s\<lparr>featuredListings := [], recentListings := ys, isLoading := False,
        error := None, networkError := None\<rparr>"
    by (simp add: handleCategoryClick_def handleCategoryClick_try_def assms ys)
  then show ?thesis using map_throwing_Inr [OF ys] by simp
qed

theorem handleCategoryClick_success_witness:
  "featuredListings (handleCategoryClick sample_source ''sport'' populated_state) = [] \<and>
   recentListings (handleCategoryClick sample_source ''sport'' populated_state) =
     [display_of True ''f1'', display_of False ''n1'', display_of True ''f2'']"
proof -
  have q: "sample_source (category_query ''sport'') =
      Resolved (Some [listing_of True ''f1'', listing_of False ''n1'', listing_of True ''f2''])
        None"
    by (simp add: sample_source_def)
  show ?thesis
    using handleCategoryClick_success [of sample_source "''sport''" _ populated_state] q
    by (simp add: or_empty_def list_all2_Cons1 formatListing_sample)
qed

text \<open>
  Claim C6. If the featured fetch succeeds and the recent fetch fails (with an error or an
  exception), loadListings leaves the featured list and the recent list as they were:
  nothing obtained by the featured fetch is shown.
\<close>

theorem loadListings_recent_failure_keeps_lists:
  assumes "getAll featured_query = Resolved fd None"
    and "failure_of (getAll None) = Some e"
  shows "featuredListings (loadListings getAll s) = featuredListings s \<and>
     recentListings (loadListings getAll s) = recentListings s"
proof -
  have "loadListings_failure getAll = Some e"
    using assms by (simp add: loadListings_failure_def)
  then have eq: "loadListings getAll s =
     s\<lparr>isLoading := False,
       error := error (loadListings getAll s),
       networkError := (if connectivity e then Some e else None)\<rparr>"
    using loadListings_failed [of getAll e s] by blast
  have "featuredListings (loadListings getAll s) = featuredListings s"
    by (subst eq) simp
  moreover have "recentListings (loadListings getAll s) = recentListings s"
    by (subst eq) simp
  ultimately show ?thesis by simp
qed

theorem loadListings_recent_failure_keeps_lists_witness:
  "featuredListings (loadListings recent_denied_source populated_state) =
     [listing_of True ''old1''] \<and>
   recentListings (loadListings recent_denied_source populated_state) =
     [listing_of False ''old2'']"
proof -
  have f: "recent_denied_source featured_query =
      Resolved (Some [listing_of True ''f1'', listing_of True ''f2'', listing_of True ''f3'',
                      listing_of True ''f4'', listing_of True ''f5'']) None"
    by (simp add: recent_denied_source_def sample_source_def)
  have r: "failure_of (recent_denied_source None) = Some permission_denied"
    by (simp add: recent_denied_source_def)
  show ?thesis
    using loadListings_recent_failure_keeps_lists [OF f r, of populated_state]
    by (simp add: populated_state_def)
qed

text \<open>
  On the first render the loading flag is true; a category fetch that fails then leaves it
  false. So a failed category fetch changes a field other than the two error fields.
\<close>

theorem handleCategoryClick_failure_frame_counterexample:
  "failure_of (offline_source (category_query ''sport'')) = Some network_down \<and>
   isLoading (handleCategoryClick offline_source ''sport'' initial_state) \<noteq>
     isLoading initial_state"
  by (simp add: handleCategoryClick_def handleCategoryClick_try_def offline_source_def
      initial_state_def)

text \<open>
  Claim C10, as the code has it. When the category fetch fails, with an error or an
  exception, of network or of application class, handleCategoryClick leaves the featured
  list and the recent list unchanged; the state it leaves differs from the state before
  at most in the two error fields and in the loading flag, which it leaves false.
\<close>

theorem handleCategoryClick_failure_frame:
  assumes "failure_of (getAll (category_query c)) = Some e"
  shows "featuredListings (handleCategoryClick getAll c s) = featuredListings s \<and>
     recentListings (handleCategoryClick getAll c s) = recentListings s \<and>
     (\<exists>m n. handleCategoryClick getAll c s =
        s\<lparr>isLoading := False, error := m, networkError := n\<rparr>)"
proof -
  have st: "handleCategoryClick getAll c s =
     s\<lparr>isLoading := False,
       error := error (handleCategoryClick getAll c s),
       networkError := (if connectivity e then Some e else None)\<rparr>"
    using handleCategoryClick_failed [of getAll c e s] assms by blast
  have "featuredListings (handleCategoryClick getAll c s) = featuredListings s"
    by (subst st) simp
  moreover have "recentListings (handleCategoryClick getAll c s) = recentListings s"
    by (subst st) simp
  ultimately show ?thesis using st by blast
qed

theorem handleCategoryClick_failure_frame_witness:
  "featuredListings (handleCategoryClick denied_source ''sport'' populated_state) =
     [listing_of True ''old1''] \<and>
   recentListings (handleCategoryClick denied_source ''sport'' populated_state) =
     [listing_of False ''old2''] \<and>
   isLoading (handleCategoryClick denied_source ''sport'' populated_state) = False"
proof -
  have f: "failure_of (denied_source (category_query ''sport'')) = Some permission_denied"
    by (simp add: denied_source_def)
  from handleCategoryClick_failure_frame [of denied_source "''sport''" permission_denied
      populated_state] f
  obtain m n where
    lists: "featuredListings (handleCategoryClick denied_source ''sport'' populated_state) =
        featuredListings populated_state"
      "recentListings (handleCategoryClick denied_source ''sport'' populated_state) =
        recentListings populated_state" and
    eq: "handleCategoryClick denied_source ''sport'' populated_state =
        populated_state\<lparr>isLoading := False, error := m, networkError := n\<rparr>"
    by blast
  have "isLoading (handleCategoryClick denied_source ''sport'' populated_state) = False"
    by (subst eq) simp
  with lists show ?thesis by (simp add: populated_state_def)
qed

section \<open>The policies after the migration\<close>

lemma drop_policies_foldl:
  "foldl (\<lambda>ps r. filter (\<lambda>p. policyname p \<noteq> r) ps) ps names =
     filter (\<lambda>p. policyname p \<notin> set names) ps"
  by (induction names arbitrary: ps) (auto intro: filter_cong)

lemma drop_all_policies_empty: "drop_all_policies existing = []"
  by (simp add: drop_all_policies_def drop_policies_foldl)

lemma repair_listings_policies_eq:
  "repair_listings_policies existing = owner_policies @ admin_policies"
  by (simp add: repair_listings_policies_def drop_all_policies_empty)

lemma grants_append: "grants (ps @ qs) k c tbl l \<longleftrightarrow> grants ps k c tbl l \<or> grants qs k c tbl l"
  by (simp add: grants_def)

lemma grants_admin_policies:
  "grants admin_policies k c tbl l \<longleftrightarrow>
     k \<in> {Select, Update, Delete} \<and> auth_email c = Some admin_email"
  by (cases k; cases "auth_email c")
    (auto simp: grants_def admin_policies_def is_admin_email_def sql_eq_def)

text \<open>
  Claim C8. Whatever policies the migration finds on listings, afterwards a caller whose
  authenticated email is the administrative email is granted select, update and delete on
  every listing row, whoever its seller is. For any other caller no admin policy grants
  anything: such a caller has exactly the rights the owner policies give.
\<close>

theorem admin_bypass:
  "(auth_email c = Some admin_email \<longrightarrow>
      (\<forall>k \<in> {Select, Update, Delete}.
         grants (repair_listings_policies existing) k c tbl l)) \<and>
   (auth_email c \<noteq> Some admin_email \<longrightarrow>
      (\<forall>k. \<not> grants admin_policies k c tbl l \<and>
           grants (repair_listings_policies existing) k c tbl l =
             grants owner_policies k c tbl l))"
proof (intro conjI impI ballI allI)
  fix k
  assume "auth_email c = Some admin_email" and "k \<in> {Select, Update, Delete}"
  then have "grants admin_policies k c tbl l"
    by (simp add: grants_admin_policies)
  then show "grants (repair_listings_policies existing) k c tbl l"
    by (simp add: repair_listings_policies_eq grants_append)
next
  fix k
  assume other: "auth_email c \<noteq> Some admin_email"
  then show "\<not> grants admin_policies k c tbl l"
    by (simp add: grants_admin_policies)
  then show "grants (repair_listings_policies existing) k c tbl l =
      grants owner_policies k c tbl l"
    by (simp add: repair_listings_policies_eq grants_append)
qed

theorem admin_bypass_witness:
  "grants (repair_listings_policies owner_policies) Select admin_caller sample_profiles sold_listing \<and>
   grants (repair_listings_policies owner_policies) Update admin_caller sample_profiles sold_listing \<and>
   grants (repair_listings_policies owner_policies) Delete admin_caller sample_profiles sold_listing \<and>
   \<not> grants owner_policies Update admin_caller sample_profiles sold_listing \<and>
   \<not> grants admin_policies Update other_caller sample_profiles sold_listing"
proof -
  have a: "auth_email admin_caller = Some admin_email"
    by (simp add: admin_caller_def admin_email_def)
  have b: "auth_email other_caller \<noteq> Some admin_email"
    by (simp add: other_caller_def admin_email_def)
  have c: "\<not> grants owner_policies Update admin_caller sample_profiles sold_listing"
    by (simp add: grants_def owner_policies_def is_own_def sql_and_def is_not_null_def sql_in_def
        own_profile_ids_def sample_profiles_def admin_caller_def sold_listing_def sql_eq_def)
  show ?thesis
    using admin_bypass [of admin_caller owner_policies sample_profiles sold_listing]
      admin_bypass [of other_caller owner_policies sample_profiles sold_listing] a b c
    by simp
qed

section \<open>The trigger\<close>

lemma handle_new_user_cases:
  "handle_new_user rejects NEW db =
     (case rejects (profiles db) (new_profile NEW) of
        None \<Rightarrow> Inr (db\<lparr>profiles := profiles db @ [new_profile NEW]\<rparr>, NEW)
      | Some sqlerrm \<Rightarrow> Inr (raise_warning NEW sqlerrm db, NEW))"
  by (simp add: handle_new_user_def exception_when_others_def insert_into_profiles_def
      split: option.splits)

text \<open>
  Claim C7. For every new account the trigger attempts one insert of one profile row, built
  from the signup metadata: phone and location are the empty string and the seller type is
  'individual' when their keys are absent (or null), the name falls back to the part of the
  email before the at sign. If the table rejects the row, the table is unchanged, one
  warning is logged, and the trigger still returns the new row: creating the account
  succeeds in either case.
\<close>

theorem handle_new_user_best_effort:
  "(\<exists>db'. handle_new_user rejects NEW db = Inr (db', NEW) \<and>
      create_account rejects NEW db = Inr (db'\<lparr>users := users db @ [NEW]\<rparr>) \<and>
      (case rejects (profiles db) (new_profile NEW) of
         None \<Rightarrow> profiles db' = profiles db @ [new_profile NEW] \<and> warnings db' = warnings db
       | Some sqlerrm \<Rightarrow>
           profiles db' = profiles db \<and>
           warnings db' = warnings db @
             [''Failed to create profile for user '' @ users_id NEW @ '': '' @ sqlerrm])) \<and>
   phone (new_profile NEW) =
     (case json_text (raw_user_meta_data NEW) ''phone'' of None \<Rightarrow> Some [] | Some t \<Rightarrow> Some t) \<and>
   location (new_profile NEW) =
     (case json_text (raw_user_meta_data NEW) ''location'' of None \<Rightarrow> Some [] | Some t \<Rightarrow> Some t) \<and>
   seller_type (new_profile NEW) =
     (case json_text (raw_user_meta_data NEW) ''sellerType'' of
        None \<Rightarrow> Some ''individual'' | Some t \<Rightarrow> Some t) \<and>
   name (new_profile NEW) =
     (case json_text (raw_user_meta_data NEW) ''name'' of
        None \<Rightarrow> split_part_1 (users_email NEW) CHR ''@'' | Some t \<Rightarrow> Some t) \<and>
   user_id (new_profile NEW) = Some (users_id NEW) \<and>
   email (new_profile NEW) = users_email NEW"
proof -
  have fields: "phone (new_profile NEW) =
     (case json_text (raw_user_meta_data NEW) ''phone'' of None \<Rightarrow> Some [] | Some t \<Rightarrow> Some t)"
   "location (new_profile NEW) =
     (case json_text (raw_user_meta_data NEW) ''location'' of None \<Rightarrow> Some [] | Some t \<Rightarrow> Some t)"
   "seller_type (new_profile NEW) =
     (case json_text (raw_user_meta_data NEW) ''sellerType'' of
        None \<Rightarrow> Some ''individual'' | Some t \<Rightarrow> Some t)"
   "name (new_profile NEW) =
     (case json_text (raw_user_meta_data NEW) ''name'' of
        None \<Rightarrow> split_part_1 (users_email NEW) CHR ''@'' | Some t \<Rightarrow> Some t)"
   "user_id (new_profile NEW) = Some (users_id NEW)"
   "email (new_profile NEW) = users_email NEW"
    by (simp_all add: new_profile_def COALESCE_def)
  have run: "\<exists>db'. handle_new_user rejects NEW db = Inr (db', NEW) \<and>
      create_account rejects NEW db = Inr (db'\<lparr>users := users db @ [NEW]\<rparr>) \<and>
      (case rejects (profiles db) (new_profile NEW) of
         None \<Rightarrow> profiles db' = profiles db @ [new_profile NEW] \<and> warnings db' = warnings db
       | Some sqlerrm \<Rightarrow>
           profiles db' = profiles db \<and>
           warnings db' = warnings db @
             [''Failed to create profile for user '' @ users_id NEW @ '': '' @ sqlerrm])"
    by (cases "rejects (profiles db) (new_profile NEW)")
      (simp_all add: handle_new_user_cases create_account_def raise_warning_def)
  show ?thesis using run fields by blast
qed

theorem handle_new_user_best_effort_witness:
  "phone (new_profile signup_without_contact) = Some [] \<and>
   location (new_profile signup_without_contact) = Some [] \<and>
   seller_type (new_profile signup_without_contact) = Some ''individual'' \<and>
   name (new_profile signup_without_contact) = Some ''Ana'' \<and>
   create_account unique_user_id signup_without_contact
     (empty_database\<lparr>profiles := [new_profile signup_without_contact]\<rparr>) =
     Inr \<lparr>users = [signup_without_contact],
          profiles = [new_profile signup_without_contact],
          warnings = [''Failed to create profile for user u-1: '' @
                      ''duplicate key value violates unique constraint'']\<rparr>"
proof -
  have rej: "unique_user_id [new_profile signup_without_contact]
      (new_profile signup_without_contact) =
      Some ''duplicate key value violates unique constraint''"
    by (simp add: unique_user_id_def)
  have meta: "json_text (raw_user_meta_data signup_without_contact) ''phone'' = None"
    "json_text (raw_user_meta_data signup_without_contact) ''location'' = None"
    "json_text (raw_user_meta_data signup_without_contact) ''sellerType'' = None"
    "json_text (raw_user_meta_data signup_without_contact) ''name'' = Some ''Ana''"
    by (simp_all add: json_text_def signup_without_contact_def)
  have uid: "users_id signup_without_contact = ''u-1''"
    by (simp add: signup_without_contact_def)
  from handle_new_user_best_effort [of unique_user_id signup_without_contact
      "empty_database\<lparr>profiles := [new_profile signup_without_contact]\<rparr>"]
  obtain db' where
    acct: "create_account unique_user_id signup_without_contact
        (empty_database\<lparr>profiles := [new_profile signup_without_contact]\<rparr>) =
        Inr (db'\<lparr>users := users (empty_database\<lparr>profiles :=
              [new_profile signup_without_contact]\<rparr>) @ [signup_without_contact]\<rparr>)" and
    eff: "profiles db' = [new_profile signup_without_contact]"
      "warnings db' = [''Failed to create profile for user u-1: '' @
                      ''duplicate key value violates unique constraint'']" and
    fields: "phone (new_profile signup_without_contact) = Some []"
      "location (new_profile signup_without_contact) = Some []"
      "seller_type (new_profile signup_without_contact) = Some ''individual''"
      "name (new_profile signup_without_contact) = Some ''Ana''"
    by (auto simp: rej meta uid empty_database_def)
  have "db'\<lparr>users := [signup_without_contact]\<rparr> =
      \<lparr>users = [signup_without_contact],
          profiles = [new_profile signup_without_contact],
          warnings = [''Failed to create profile for user u-1: '' @
                      ''duplicate key value violates unique constraint'']\<rparr>"
    using eff by (cases db') simp
  with acct fields show ?thesis by (simp add: empty_database_def)
qed

text \<open>
  Claim C9. The profile row built for a new account has is_admin true exactly when the
  account's email is 'admin@nexar.ro', and verified false, whatever the signup metadata
  holds; that row is the one appended to the table when the insert is accepted.
\<close>

theorem new_profile_flags:
  "(is_admin (new_profile NEW) = Some True \<longleftrightarrow> users_email NEW = Some admin_email) \<and>
   verified (new_profile NEW) = Some False \<and>
   (rejects (profiles db) (new_profile NEW) = None \<longrightarrow>
      (\<exists>db'. handle_new_user rejects NEW db = Inr (db', NEW) \<and>
         profiles db' = profiles db @ [new_profile NEW]))"
  by (cases "users_email NEW")
    (simp_all add: new_profile_def sql_eq_def handle_new_user_cases)

theorem new_profile_flags_witness:
  "is_admin (new_profile signup_admin) = Some True \<and>
   verified (new_profile signup_admin) = Some False \<and>
   is_admin (new_profile signup_without_contact) = Some False \<and>
   (\<exists>db'. handle_new_user accepts_all signup_admin empty_database = Inr (db', signup_admin) \<and>
      profiles db' = [new_profile signup_admin])"
proof -
  have a: "users_email signup_admin = Some admin_email"
    by (simp add: signup_admin_def admin_email_def)
  have b: "is_admin (new_profile signup_without_contact) = Some False"
    by (simp add: new_profile_def signup_without_contact_def admin_email_def sql_eq_def)
  have c: "accepts_all (profiles empty_database) (new_profile signup_admin) = None"
    by (simp add: accepts_all_def)
  show ?thesis
    using new_profile_flags [of signup_admin accepts_all empty_database] a b c
    by (simp add: empty_database_def)
qed

end
